theory Spec2Isabelle
  imports Complex_Main "HOL-Library.Multiset"
begin

section \<open>The storefront and invoicing application \<^verbatim>\<open>app.py\<close>\<close>

text \<open>
  A shallow embedding of the Flask application: the SQLAlchemy models are records, the
  database is a record of tables (each a list of rows in rowid order), a view function
  takes the database and the request form and returns either a propagated Python
  exception (\<open>Inl\<close>) or its reply together with the database after the request.

  Conventions:
  \<^item> a Python float (and a \<^verbatim>\<open>db.Float\<close> column) is a \<open>pyfloat\<close>: a finite double, an infinity or
    NaN. Multiplication is IEEE 754's: a finite product is rounded and overflows to an
    infinity, zero times an infinity is NaN. The two zeros are identified. SQLite stores
    NaN as NULL, so a NaN in a \<^verbatim>\<open>nullable=False\<close> column raises \<^verbatim>\<open>IntegrityError\<close>.
  \<^item> \<^verbatim>\<open>db.Integer\<close> columns hold Python's unbounded \<open>int\<close>; SQLite stores 64-bit integers and
    the driver raises \<^verbatim>\<open>OverflowError\<close> on a bound parameter outside that range.
  \<^item> a nullable column is an \<open>option\<close>; a \<^verbatim>\<open>nullable=False\<close> column is a plain value, and an
    insert of \<^verbatim>\<open>None\<close> into it raises \<^verbatim>\<open>IntegrityError\<close> at commit.
  \<^item> the primary key of a new row is one more than the largest key of the table (1 for an
    empty table), as SQLite assigns rowids.
  \<^item> requests are handled one at a time.
\<close>

subsection \<open>Floats\<close>

datatype pyfloat = Finite real | Infinity bool | NaN
  \<comment> \<open>\<open>Infinity True\<close> is \<^verbatim>\<open>inf\<close>, \<open>Infinity False\<close> is \<^verbatim>\<open>-inf\<close>\<close>

subsection \<open>Models (lines 19--61)\<close>

record admin =
  admin_id :: int
  username :: string
  password_hash :: string

record category =
  cat_id :: int
  cat_name :: string

record product =
  prod_id :: int
  prod_name :: string
  description :: "string option"
  image_url :: "string option"
  price_per_sqft :: pyfloat
  category_id :: int

record labor_cost =
  labor_id :: int
  rate_per_sqft :: "pyfloat option"

record invoice =
  inv_id :: int
  customer_name :: string
  customer_phone :: string
  customer_address :: string
  product_id :: int
  product_name :: "string option"
  height_ft :: pyfloat
  width_ft :: pyfloat
  quantity :: int
  sqft_price_at_booking :: pyfloat
  total_amount :: pyfloat
  created_at :: int

record database =
  admins :: "admin list"
  categories :: "category list"
  products :: "product list"
  labor_costs :: "labor_cost list"
  invoices :: "invoice list"

definition empty_database :: database where
  "empty_database =
     \<lparr>admins = [], categories = [], products = [], labor_costs = [], invoices = []\<rparr>"

subsection \<open>The Python runtime and the outside world\<close>

text \<open>
  What a request reads from outside the database: Python's \<^verbatim>\<open>int(str)\<close> and \<^verbatim>\<open>float(str)\<close>
  (\<open>None\<close> where they raise \<^verbatim>\<open>ValueError\<close>), the rounding of a real number that is neither
  zero nor out of range to a double, the clock behind \<^verbatim>\<open>datetime.utcnow\<close> (in microseconds),
  whether the storage engine completes the commit, and werkzeug's salted
  \<^verbatim>\<open>generate_password_hash\<close>. Every definition below takes them as a parameter, so every
  theorem holds for whatever they are.
\<close>

record world =
  str_to_int :: "string \<Rightarrow> int option"
  str_to_float :: "string \<Rightarrow> pyfloat option"
  round_to_double :: "real \<Rightarrow> real"
  utcnow :: int
  commit_ok :: bool
  generate_password_hash :: "string \<Rightarrow> string"

datatype py_exception = TypeError | ValueError | OverflowError | IntegrityError | OperationalError

type_synonym form = "string \<rightharpoonup> string"

definition py_int :: "world \<Rightarrow> string option \<Rightarrow> py_exception + int" where
  \<comment> \<open>\<^verbatim>\<open>int(request.form.get(k))\<close>: \<^verbatim>\<open>int(None)\<close> raises TypeError, a malformed string ValueError\<close>
  "py_int w v =
     (case v of
        None \<Rightarrow> Inl TypeError
      | Some s \<Rightarrow> (case str_to_int w s of None \<Rightarrow> Inl ValueError | Some n \<Rightarrow> Inr n))"

definition py_float :: "world \<Rightarrow> string option \<Rightarrow> py_exception + pyfloat" where
  \<comment> \<open>\<^verbatim>\<open>float(request.form.get(k))\<close>\<close>
  "py_float w v =
     (case v of
        None \<Rightarrow> Inl TypeError
      | Some s \<Rightarrow> (case str_to_float w s of None \<Rightarrow> Inl ValueError | Some x \<Rightarrow> Inr x))"

definition overflow_threshold :: real where
  \<comment> \<open>the least magnitude that rounds to an infinity: the largest double plus half a unit
      in its last place\<close>
  "overflow_threshold = 2 ^ 1024 - 2 ^ 970"

definition to_double :: "world \<Rightarrow> real \<Rightarrow> pyfloat" where
  \<comment> \<open>the double for an exact result: zero is a double, a magnitude out of range gives an
      infinity, anything else is rounded\<close>
  "to_double w x =
     (if x = 0 then Finite 0
      else if overflow_threshold \<le> \<bar>x\<bar> then Infinity (0 < x)
      else Finite (round_to_double w x))"

fun py_mul :: "world \<Rightarrow> pyfloat \<Rightarrow> pyfloat \<Rightarrow> pyfloat" where
  \<comment> \<open>\<^verbatim>\<open>x * y\<close> on floats\<close>
  "py_mul w NaN y = NaN"
| "py_mul w x NaN = NaN"
| "py_mul w (Finite a) (Finite b) = to_double w (a * b)"
| "py_mul w (Finite a) (Infinity s) = (if a = 0 then NaN else Infinity (s = (0 < a)))"
| "py_mul w (Infinity s) (Finite b) = (if b = 0 then NaN else Infinity (s = (0 < b)))"
| "py_mul w (Infinity s) (Infinity t) = Infinity (s = t)"

definition int_to_float :: "world \<Rightarrow> int \<Rightarrow> py_exception + pyfloat" where
  \<comment> \<open>the conversion of the \<^verbatim>\<open>int\<close> operand of \<^verbatim>\<open>float * int\<close>: an integer out of the doubles'
      range raises \<^verbatim>\<open>OverflowError\<close>\<close>
  "int_to_float w n =
     (if overflow_threshold \<le> \<bar>of_int n\<bar> then Inl OverflowError
      else Inr (to_double w (of_int n)))"

definition finite_float :: "pyfloat \<Rightarrow> bool" where
  "finite_float x = (case x of Finite a \<Rightarrow> True | _ \<Rightarrow> False)"

subsection \<open>Storage\<close>

definition sqlite_real :: "pyfloat \<Rightarrow> pyfloat option" where
  \<comment> \<open>a float bound to a REAL column: SQLite stores NaN as NULL\<close>
  "sqlite_real x = (if x = NaN then None else Some x)"

definition sqlite_integer :: "int \<Rightarrow> bool" where
  "sqlite_integer n = (- (2 ^ 63) \<le> n \<and> n < 2 ^ 63)"

definition next_id :: "int list \<Rightarrow> int" where
  "next_id ids = (case ids of [] \<Rightarrow> 1 | i # js \<Rightarrow> fold max js i + 1)"

definition query_get :: "('row \<Rightarrow> int) \<Rightarrow> 'row list \<Rightarrow> int \<Rightarrow> py_exception + 'row option" where
  \<comment> \<open>\<^verbatim>\<open>Model.query.get(key)\<close>: the row with that primary key, or \<^verbatim>\<open>None\<close>\<close>
  "query_get pk rows key =
     (if sqlite_integer key then Inr (find (\<lambda>r. pk r = key) rows) else Inl OverflowError)"

definition query_first :: "'row list \<Rightarrow> 'row option" where
  \<comment> \<open>\<^verbatim>\<open>Model.query.first()\<close>\<close>
  "query_first rows = (case rows of [] \<Rightarrow> None | r # _ \<Rightarrow> Some r)"

subsection \<open>Replies\<close>

datatype endpoint = Admin_login | Admin_dashboard | View_invoice int

datatype flash_message =
    Product_not_found        \<comment> \<open>\<^verbatim>\<open>flash("Product not found")\<close>\<close>
  | Exception_text py_exception  \<comment> \<open>\<^verbatim>\<open>flash(str(e))\<close>\<close>
  | Please_log_in            \<comment> \<open>the login manager's message to an anonymous user\<close>

datatype response =
    Redirect endpoint
  | Render_dashboard "category list" "product list" "labor_cost option" "invoice list"

record reply =
  response :: response
  flashed :: "flash_message list"

subsection \<open>\<^verbatim>\<open>create_invoice\<close> (lines 206--245)\<close>

definition insert_invoice ::
  "world \<Rightarrow> database \<Rightarrow> string option \<Rightarrow> string option \<Rightarrow> string option \<Rightarrow> int \<Rightarrow>
   string option \<Rightarrow> pyfloat \<Rightarrow> pyfloat \<Rightarrow> int \<Rightarrow> pyfloat \<Rightarrow> pyfloat \<Rightarrow>
   py_exception + int \<times> database" where
  \<comment> \<open>lines 227--240: \<^verbatim>\<open>Invoice(...)\<close>, \<^verbatim>\<open>db.session.add\<close>, \<^verbatim>\<open>db.session.commit\<close>. The INSERT binds
      its integer parameters, checks the NOT NULL columns (the four float columns among
      them), and is written by the commit as one row or not at all; \<open>created_at\<close> takes
      its column default. The result is the new row's \<open>id\<close> and the database after the
      commit.\<close>
  "insert_invoice w db c_name c_phone c_address pid p_name height width qty price total' =
     (if \<not> sqlite_integer pid \<or> \<not> sqlite_integer qty then Inl OverflowError
      else if sqlite_real height = None \<or> sqlite_real width = None \<or>
              sqlite_real price = None \<or> sqlite_real total' = None then Inl IntegrityError
      else case (c_name, c_phone, c_address) of
        (Some name, Some phone, Some address) \<Rightarrow>
          if commit_ok w then
            let new_id = next_id (map inv_id (invoices db));
                row = \<lparr>inv_id = new_id,
                       customer_name = name,
                       customer_phone = phone,
                       customer_address = address,
                       product_id = pid,
                       product_name = p_name,
                       height_ft = height,
                       width_ft = width,
                       quantity = qty,
                       sqft_price_at_booking = price,
                       total_amount = total',
                       created_at = utcnow w\<rparr>
            in Inr (new_id, db\<lparr>invoices := invoices db @ [row]\<rparr>)
          else Inl OperationalError
      | _ \<Rightarrow> Inl IntegrityError)"

definition create_invoice_try :: "world \<Rightarrow> database \<Rightarrow> form \<Rightarrow> py_exception + reply \<times> database" where
  \<comment> \<open>the body of the \<^verbatim>\<open>try\<close> block, lines 210--242\<close>
  "create_invoice_try w db form =
     (case py_int w (form ''product_id'') of Inl e \<Rightarrow> Inl e | Inr pid \<Rightarrow>
      let c_name = form ''customer_name'';
          c_phone = form ''customer_phone'';
          c_address = form ''customer_address'' in
      case py_float w (form ''height'') of Inl e \<Rightarrow> Inl e | Inr height \<Rightarrow>
      case py_float w (form ''width'') of Inl e \<Rightarrow> Inl e | Inr width \<Rightarrow>
      case py_int w (form ''quantity'') of Inl e \<Rightarrow> Inl e | Inr qty \<Rightarrow>
      case query_get prod_id (products db) pid of Inl e \<Rightarrow> Inl e
      | Inr None \<Rightarrow>
          Inr (\<lparr>response = Redirect Admin_dashboard, flashed = [Product_not_found]\<rparr>, db)
      | Inr (Some p) \<Rightarrow>
          let sqft = py_mul w height width in
          case int_to_float w qty of Inl e \<Rightarrow> Inl e | Inr qty_float \<Rightarrow>
          let total' = py_mul w (py_mul w sqft (price_per_sqft p)) qty_float in
          case insert_invoice w db c_name c_phone c_address pid (Some (prod_name p))
                 height width qty (price_per_sqft p) total' of
            Inl e \<Rightarrow> Inl e
          | Inr (new_id, db') \<Rightarrow>
              Inr (\<lparr>response = Redirect (View_invoice new_id), flashed = []\<rparr>, db'))"

definition create_invoice :: "world \<Rightarrow> database \<Rightarrow> form \<Rightarrow> py_exception + reply \<times> database" where
  \<comment> \<open>the view function: \<^verbatim>\<open>try: ... except Exception as e: flash(str(e)); redirect\<close>. An
      exception leaves the session uncommitted, so the database is the one before.\<close>
  "create_invoice w db form =
     (case create_invoice_try w db form of
        Inl e \<Rightarrow>
          Inr (\<lparr>response = Redirect Admin_dashboard, flashed = [Exception_text e]\<rparr>, db)
      | Inr r \<Rightarrow> Inr r)"

subsection \<open>The other view functions and the start-up code\<close>

definition redirect_dashboard :: reply where
  \<comment> \<open>\<^verbatim>\<open>redirect(url_for('admin_dashboard'))\<close> with nothing flashed\<close>
  "redirect_dashboard = \<lparr>response = Redirect Admin_dashboard, flashed = []\<rparr>"

definition init_database :: "world \<Rightarrow> database \<Rightarrow> py_exception + database" where
  \<comment> \<open>lines 69--83; the \<^verbatim>\<open>create-admin\<close> command (lines 89--105) and the \<^verbatim>\<open>__main__\<close> block
      (lines 254--264) do the same writes. \<^verbatim>\<open>db.create_all\<close> leaves existing tables alone.\<close>
  "init_database w db =
     (if find (\<lambda>a. username a = ''admin'') (admins db) = None then
        let admin = \<lparr>admin_id = next_id (map admin_id (admins db)),
                     username = ''admin'',
                     password_hash = generate_password_hash w ''admin123''\<rparr>;
            labor = (if query_first (labor_costs db) = None
                     then [\<lparr>labor_id = next_id (map labor_id (labor_costs db)),
                            rate_per_sqft = Some (Finite 50)\<rparr>]
                     else [])
        in if commit_ok w
           then Inr (db\<lparr>admins := admins db @ [admin], labor_costs := labor_costs db @ labor\<rparr>)
           else Inl OperationalError
      else Inr db)"

definition labor_rate :: "database \<Rightarrow> pyfloat option" where
  \<comment> \<open>lines 126--127 of \<^verbatim>\<open>product_detail\<close>, the one reader of the labor rate besides the
      dashboard: \<^verbatim>\<open>labor_cost.rate_per_sqft if labor_cost else 0\<close>\<close>
  "labor_rate db =
     (case query_first (labor_costs db) of
        None \<Rightarrow> Some (Finite 0)
      | Some labor \<Rightarrow> rate_per_sqft labor)"

definition order_by_desc :: "('row \<Rightarrow> int) \<Rightarrow> 'row list \<Rightarrow> 'row list" where
  \<comment> \<open>\<^verbatim>\<open>query.order_by(column.desc()).all()\<close>. SQL leaves the order of rows with equal keys
      open; the model keeps them in rowid order.\<close>
  "order_by_desc col rows = sort_key (\<lambda>r. - col r) rows"

definition admin_dashboard :: "database \<Rightarrow> reply" where
  \<comment> \<open>lines 157--166: the template's arguments\<close>
  "admin_dashboard db =
     \<lparr>response = Render_dashboard (categories db) (products db) (query_first (labor_costs db))
                   (order_by_desc created_at (invoices db)),
      flashed = []\<rparr>"

definition add_category :: "world \<Rightarrow> database \<Rightarrow> form \<Rightarrow> py_exception + reply \<times> database" where
  \<comment> \<open>lines 171--176; \<^verbatim>\<open>if name:\<close> is false for \<^verbatim>\<open>None\<close> and for the empty string\<close>
  "add_category w db form =
     (case form ''name'' of
        None \<Rightarrow> Inr (redirect_dashboard, db)
      | Some name \<Rightarrow>
          if name = [] then Inr (redirect_dashboard, db)
          else if commit_ok w then
            Inr (redirect_dashboard,
                 db\<lparr>categories := categories db @
                      [\<lparr>cat_id = next_id (map cat_id (categories db)), cat_name = name\<rparr>]\<rparr>)
          else Inl OperationalError)"

definition add_product :: "world \<Rightarrow> database \<Rightarrow> form \<Rightarrow> py_exception + reply \<times> database" where
  \<comment> \<open>lines 180--191; no \<^verbatim>\<open>try\<close>: an exception propagates\<close>
  "add_product w db form =
     (let name = form ''name'' in
      case py_float w (form ''price'') of Inl e \<Rightarrow> Inl e | Inr price \<Rightarrow>
      case py_int w (form ''category_id'') of Inl e \<Rightarrow> Inl e | Inr cid \<Rightarrow>
      let descr = form ''description'';
          url = form ''image_url'' in
      if \<not> sqlite_integer cid then Inl OverflowError
      else case name of
        None \<Rightarrow> Inl IntegrityError
      | Some n \<Rightarrow>
          if sqlite_real price = None then Inl IntegrityError
          else if commit_ok w then
            Inr (redirect_dashboard,
                 db\<lparr>products := products db @
                      [\<lparr>prod_id = next_id (map prod_id (products db)), prod_name = n,
                        description = descr, image_url = url, price_per_sqft = price,
                        category_id = cid\<rparr>]\<rparr>)
          else Inl OperationalError)"

definition update_labor :: "world \<Rightarrow> database \<Rightarrow> form \<Rightarrow> py_exception + reply \<times> database" where
  \<comment> \<open>lines 195--204; no \<^verbatim>\<open>try\<close>: an exception propagates\<close>
  "update_labor w db form =
     (case py_float w (form ''rate'') of Inl e \<Rightarrow> Inl e | Inr rate \<Rightarrow>
      if commit_ok w then
        (case labor_costs db of
           [] \<Rightarrow>
             Inr (redirect_dashboard,
                  db\<lparr>labor_costs := [\<lparr>labor_id = 1, rate_per_sqft = sqlite_real rate\<rparr>]\<rparr>)
         | labor # others \<Rightarrow>
             Inr (redirect_dashboard,
                  db\<lparr>labor_costs := labor\<lparr>rate_per_sqft := sqlite_real rate\<rparr> # others\<rparr>))
      else Inl OperationalError)"

definition login_required ::
  "bool \<Rightarrow> (database \<Rightarrow> py_exception + reply \<times> database) \<Rightarrow> database \<Rightarrow>
   py_exception + reply \<times> database" where
  \<comment> \<open>the decorator on every admin route: an anonymous user is sent to the login page and
      the view function does not run\<close>
  "login_required authenticated view db =
     (if authenticated then view db
      else Inr (\<lparr>response = Redirect Admin_login, flashed = [Please_log_in]\<rparr>, db))"

subsection \<open>Histories\<close>

text \<open>
  Everything that writes to the database, as events. \<open>Set_product_price\<close> is not a route
  of \<^verbatim>\<open>app.py\<close> (it has none that edits a product): it stands for a change of the live
  Product row by any other means.
\<close>

datatype event =
    Init_database
  | Add_category form
  | Add_product form
  | Update_labor form
  | Create_invoice form
  | Set_product_price int pyfloat

definition set_product_price :: "int \<Rightarrow> pyfloat \<Rightarrow> database \<Rightarrow> database" where
  "set_product_price pid price db =
     db\<lparr>products :=
          map (\<lambda>p. if prod_id p = pid then p\<lparr>price_per_sqft := price\<rparr> else p) (products db)\<rparr>"

definition committed :: "database \<Rightarrow> py_exception + reply \<times> database \<Rightarrow> database" where
  \<comment> \<open>the database after a request: a propagated exception (a 500 reply) commits nothing\<close>
  "committed db r = (case r of Inl e \<Rightarrow> db | Inr (_, db') \<Rightarrow> db')"

fun apply_event :: "world \<Rightarrow> bool \<Rightarrow> event \<Rightarrow> database \<Rightarrow> database" where
  "apply_event w auth Init_database db =
     (case init_database w db of Inl e \<Rightarrow> db | Inr db' \<Rightarrow> db')"
| "apply_event w auth (Add_category form) db =
     committed db (login_required auth (\<lambda>d. add_category w d form) db)"
| "apply_event w auth (Add_product form) db =
     committed db (login_required auth (\<lambda>d. add_product w d form) db)"
| "apply_event w auth (Update_labor form) db =
     committed db (login_required auth (\<lambda>d. update_labor w d form) db)"
| "apply_event w auth (Create_invoice form) db =
     committed db (login_required auth (\<lambda>d. create_invoice w d form) db)"
| "apply_event w auth (Set_product_price pid price) db = set_product_price pid price db"

fun run :: "(world \<times> bool \<times> event) list \<Rightarrow> database \<Rightarrow> database" where
  "run [] db = db"
| "run ((w, auth, ev) # rest) db = run rest (apply_event w auth ev db)"

subsection \<open>A concrete world for evaluation\<close>

text \<open>
  The plain decimal fragment of what \<^verbatim>\<open>int\<close> and \<^verbatim>\<open>float\<close> accept: an optional sign, digits
  and, for \<^verbatim>\<open>float\<close>, an optional fraction or one of the words \<^verbatim>\<open>inf\<close> and \<^verbatim>\<open>nan\<close>. The
  rounding is the identity, which is what rounding does to the small integers of the
  requests below. The concrete world is used only to evaluate the handlers on concrete
  requests.
\<close>

definition digit_of :: "char \<Rightarrow> nat option" where
  "digit_of c =
     (let n = (of_char c :: nat) in if 48 \<le> n \<and> n \<le> 57 then Some (n - 48) else None)"

fun digits_value :: "nat \<Rightarrow> string \<Rightarrow> nat option" where
  "digits_value acc [] = Some acc"
| "digits_value acc (c # cs) =
     (case digit_of c of None \<Rightarrow> None | Some d \<Rightarrow> digits_value (10 * acc + d) cs)"

definition decimal_nat :: "string \<Rightarrow> nat option" where
  "decimal_nat s = (if s = [] then None else digits_value 0 s)"

definition decimal_int :: "string \<Rightarrow> int option" where
  "decimal_int s =
     (case s of
        [] \<Rightarrow> None
      | c # cs \<Rightarrow>
          if c = CHR ''-'' then map_option (\<lambda>n. - int n) (decimal_nat cs)
          else if c = CHR ''+'' then map_option int (decimal_nat cs)
          else map_option int (decimal_nat s))"

definition decimal_real :: "string \<Rightarrow> real option" where
  "decimal_real s =
     (let whole = takeWhile (\<lambda>c. c \<noteq> CHR ''.'') s;
          rest = dropWhile (\<lambda>c. c \<noteq> CHR ''.'') s
      in case decimal_int whole of
           None \<Rightarrow> None
         | Some i \<Rightarrow>
             (case rest of
                [] \<Rightarrow> Some (of_int i)
              | _ # ds \<Rightarrow>
                  (case decimal_nat ds of
                     None \<Rightarrow> None
                   | Some f \<Rightarrow>
                       let m = real f / 10 ^ length ds
                       in Some (if hd whole = CHR ''-'' then of_int i - m else of_int i + m))))"

definition decimal_float :: "string \<Rightarrow> pyfloat option" where
  "decimal_float s =
     (if s = ''inf'' then Some (Infinity True)
      else if s = ''nan'' then Some NaN
      else map_option Finite (decimal_real s))"

definition decimal_world :: "int \<Rightarrow> bool \<Rightarrow> world" where
  "decimal_world now ok =
     \<lparr>str_to_int = decimal_int, str_to_float = decimal_float, round_to_double = (\<lambda>x. x),
      utcnow = now, commit_ok = ok,
      generate_password_hash = (\<lambda>pw. ''pbkdf2:sha256$'' @ pw)\<rparr>"

definition window :: product where
  "window = \<lparr>prod_id = 1, prod_name = ''Sliding window'', description = None,
             image_url = None, price_per_sqft = Finite 50, category_id = 1\<rparr>"

definition shop :: database where
  "shop = \<lparr>admins = [\<lparr>admin_id = 1, username = ''admin'', password_hash = ''pbkdf2:sha256$x''\<rparr>],
           categories = [\<lparr>cat_id = 1, cat_name = ''Windows''\<rparr>],
           products = [window],
           labor_costs = [\<lparr>labor_id = 1, rate_per_sqft = Some (Finite 50)\<rparr>],
           invoices = []\<rparr>"

definition order_form :: "string \<Rightarrow> string \<Rightarrow> string \<Rightarrow> string \<Rightarrow> form" where
  "order_form pid h wd q =
     map_of [(''product_id'', pid), (''customer_name'', ''Asha''), (''customer_phone'', ''555''),
             (''customer_address'', ''12 Mill Road''), (''height'', h), (''width'', wd),
             (''quantity'', q)]"

definition asha_invoice :: "int \<Rightarrow> real \<Rightarrow> real \<Rightarrow> int \<Rightarrow> real \<Rightarrow> int \<Rightarrow> invoice" where
  \<comment> \<open>the row that an \<open>order_form\<close> for the window makes\<close>
  "asha_invoice iid h wd q amount now =
     \<lparr>inv_id = iid, customer_name = ''Asha'', customer_phone = ''555'',
      customer_address = ''12 Mill Road'', product_id = 1,
      product_name = Some ''Sliding window'', height_ft = Finite h, width_ft = Finite wd,
      quantity = q, sqft_price_at_booking = Finite 50, total_amount = Finite amount,
      created_at = now\<rparr>"

definition rate_form :: "string \<Rightarrow> form" where
  \<comment> \<open>the form of the labor-rate update\<close>
  "rate_form r = map_of [(''rate'', r)]"

section \<open>Properties\<close>

subsection \<open>Evaluation of the concrete world\<close>

lemma order_form_fields:
  "order_form pid h wd q ''product_id'' = Some pid"
  "order_form pid h wd q ''customer_name'' = Some ''Asha''"
  "order_form pid h wd q ''customer_phone'' = Some ''555''"
  "order_form pid h wd q ''customer_address'' = Some ''12 Mill Road''"
  "order_form pid h wd q ''height'' = Some h"
  "order_form pid h wd q ''width'' = Some wd"
  "order_form pid h wd q ''quantity'' = Some q"
  by (simp_all add: order_form_def)

lemma decimal_int_values:
  "decimal_int ''0'' = Some 0"
  "decimal_int ''1'' = Some 1"
  "decimal_int ''2'' = Some 2"
  "decimal_int ''9999'' = Some 9999"
  "decimal_int ''two'' = None"
  by (simp_all add: decimal_int_def decimal_nat_def digit_of_def)

lemma decimal_float_values:
  "decimal_float ''0'' = Some (Finite 0)"
  "decimal_float ''5'' = Some (Finite 5)"
  "decimal_float ''10'' = Some (Finite 10)"
  "decimal_float ''60'' = Some (Finite 60)"
  "decimal_float ''-1'' = Some (Finite (- 1))"
  "decimal_float ''abc'' = None"
  "decimal_float ''inf'' = Some (Infinity True)"
  by (simp_all add: decimal_float_def decimal_real_def decimal_int_def decimal_nat_def
      digit_of_def)

lemma decimal_world_fields:
  "str_to_int (decimal_world now ok) = decimal_int"
  "str_to_float (decimal_world now ok) = decimal_float"
  "round_to_double (decimal_world now ok) = (\<lambda>x. x)"
  "utcnow (decimal_world now ok) = now"
  "commit_ok (decimal_world now ok) = ok"
  by (simp_all add: decimal_world_def)

lemma shop_fields:
  "products shop = [window]" "invoices shop = []"
  "labor_costs shop = [\<lparr>labor_id = 1, rate_per_sqft = Some (Finite 50)\<rparr>]"
  by (simp_all add: shop_def)

lemma below_overflow_threshold:
  assumes "\<bar>x\<bar> \<le> 2 ^ 63"
  shows "\<not> overflow_threshold \<le> \<bar>x\<bar>"
proof -
  have "(2::real) ^ 63 < overflow_threshold"
    by (simp add: overflow_threshold_def)
  with assms show ?thesis by linarith
qed

lemma to_double_decimal:
  "\<bar>x\<bar> \<le> 2 ^ 63 \<Longrightarrow> to_double (decimal_world now ok) x = Finite x"
  by (simp add: to_double_def below_overflow_threshold decimal_world_fields)

lemma int_to_float_sqlite_integer:
  assumes "sqlite_integer n"
  shows "int_to_float w n = Inr (to_double w (of_int n))"
proof -
  from assms have "- (2 ^ 63) \<le> n" "n < 2 ^ 63"
    by (simp_all add: sqlite_integer_def)
  then have "\<bar>real_of_int n\<bar> \<le> 2 ^ 63"
    by (simp add: abs_le_iff)
  then show ?thesis
    by (simp add: int_to_float_def below_overflow_threshold)
qed

lemmas eval_simps = order_form_fields decimal_int_values decimal_float_values decimal_world_fields
  shop_fields py_int_def py_float_def create_invoice_def create_invoice_try_def
  insert_invoice_def query_get_def sqlite_integer_def next_id_def window_def asha_invoice_def
  sqlite_real_def to_double_decimal int_to_float_sqlite_integer

lemma order_created:
  "create_invoice (decimal_world now True) shop (order_form ''1'' ''10'' ''5'' ''2'') =
     Inr (\<lparr>response = Redirect (View_invoice 1), flashed = []\<rparr>,
          shop\<lparr>invoices := [asha_invoice 1 10 5 2 5000 now]\<rparr>)"
  by (simp add: eval_simps)

lemma order_negative:
  "create_invoice (decimal_world now True) shop (order_form ''1'' ''-1'' ''5'' ''2'') =
     Inr (\<lparr>response = Redirect (View_invoice 1), flashed = []\<rparr>,
          shop\<lparr>invoices := [asha_invoice 1 (- 1) 5 2 (- 500) now]\<rparr>)"
  by (simp add: eval_simps)

lemma order_missing_bad_height:
  "create_invoice (decimal_world now True) shop (order_form ''9999'' ''abc'' ''5'' ''2'') =
     Inr (\<lparr>response = Redirect Admin_dashboard, flashed = [Exception_text ValueError]\<rparr>, shop)"
  by (simp add: eval_simps)

lemma order_zero_by_infinity:
  "create_invoice (decimal_world now True) shop (order_form ''1'' ''0'' ''inf'' ''2'') =
     Inr (\<lparr>response = Redirect Admin_dashboard, flashed = [Exception_text IntegrityError]\<rparr>,
          shop)"
  by (simp add: eval_simps)

lemma order_infinity_by_zero:
  "create_invoice (decimal_world now True) shop (order_form ''1'' ''inf'' ''5'' ''0'') =
     Inr (\<lparr>response = Redirect Admin_dashboard, flashed = [Exception_text IntegrityError]\<rparr>,
          shop)"
  by (simp add: eval_simps)

lemma order_zero_bad_width:
  "create_invoice (decimal_world now True) shop (order_form ''1'' ''0'' ''abc'' ''2'') =
     Inr (\<lparr>response = Redirect Admin_dashboard, flashed = [Exception_text ValueError]\<rparr>, shop)"
  by (simp add: eval_simps)

subsection \<open>The paths through \<^verbatim>\<open>create_invoice\<close>\<close>

text \<open>
  The \<^verbatim>\<open>try\<close> block ends in one of three ways: an exception; the \<^verbatim>\<open>Product not found\<close>
  return, reached only after all four numeric fields have parsed; or the commit of one new
  row, none of whose float columns is NaN.
\<close>

lemma create_invoice_try_cases:
  "(\<exists>e. create_invoice_try w db form = Inl e) \<or>
   (create_invoice_try w db form =
      Inr (\<lparr>response = Redirect Admin_dashboard, flashed = [Product_not_found]\<rparr>, db) \<and>
    (\<exists>pid. py_int w (form ''product_id'') = Inr pid \<and> sqlite_integer pid \<and>
       find (\<lambda>p. prod_id p = pid) (products db) = None) \<and>
    (\<exists>h. py_float w (form ''height'') = Inr h) \<and>
    (\<exists>x. py_float w (form ''width'') = Inr x) \<and>
    (\<exists>q. py_int w (form ''quantity'') = Inr q)) \<or>
   (\<exists>pid p h wd q qf cn cp ca.
      py_int w (form ''product_id'') = Inr pid \<and> sqlite_integer pid \<and>
      find (\<lambda>p. prod_id p = pid) (products db) = Some p \<and>
      py_float w (form ''height'') = Inr h \<and>
      py_float w (form ''width'') = Inr wd \<and>
      py_int w (form ''quantity'') = Inr q \<and> sqlite_integer q \<and>
      int_to_float w q = Inr qf \<and>
      h \<noteq> NaN \<and> wd \<noteq> NaN \<and> price_per_sqft p \<noteq> NaN \<and>
      py_mul w (py_mul w (py_mul w h wd) (price_per_sqft p)) qf \<noteq> NaN \<and>
      form ''customer_name'' = Some cn \<and> form ''customer_phone'' = Some cp \<and>
      form ''customer_address'' = Some ca \<and> commit_ok w \<and>
      create_invoice_try w db form =
        Inr (\<lparr>response = Redirect (View_invoice (next_id (map inv_id (invoices db)))), flashed = []\<rparr>,
             db\<lparr>invoices := invoices db @
               [\<lparr>inv_id = next_id (map inv_id (invoices db)), customer_name = cn,
                 customer_phone = cp, customer_address = ca, product_id = pid,
                 product_name = Some (prod_name p), height_ft = h, width_ft = wd, quantity = q,
                 sqft_price_at_booking = price_per_sqft p,
                 total_amount = py_mul w (py_mul w (py_mul w h wd) (price_per_sqft p)) qf,
                 created_at = utcnow w\<rparr>]\<rparr>))"
  unfolding create_invoice_try_def insert_invoice_def query_get_def sqlite_real_def Let_def
  by (auto split: sum.splits option.splits if_splits)

lemma create_invoice_cases:
  "(\<exists>e. create_invoice_try w db form = Inl e \<and>
        create_invoice w db form =
          Inr (\<lparr>response = Redirect Admin_dashboard, flashed = [Exception_text e]\<rparr>, db)) \<or>
   (\<exists>r db'. create_invoice_try w db form = Inr (r, db') \<and>
        create_invoice w db form = Inr (r, db'))"
  by (cases "create_invoice_try w db form") (auto simp: create_invoice_def)

lemma create_invoice_try_labor:
  "create_invoice_try w (db\<lparr>labor_costs := ls\<rparr>) form =
     map_sum id (map_prod id (labor_costs_update (\<lambda>_. ls))) (create_invoice_try w db form)"
  unfolding create_invoice_try_def insert_invoice_def query_get_def sqlite_real_def Let_def
  by (auto split: sum.splits option.splits if_splits)

lemma create_invoice_labor:
  "create_invoice w (db\<lparr>labor_costs := ls\<rparr>) form =
     map_sum id (map_prod id (labor_costs_update (\<lambda>_. ls))) (create_invoice w db form)"
  by (cases "create_invoice_try w db form")
     (auto simp: create_invoice_def create_invoice_try_labor)

subsection \<open>The total of an invoice\<close>

text \<open>
  C1. Whenever \<^verbatim>\<open>create_invoice\<close> succeeds (it redirects to the new invoice's page), the
  row it has appended to the Invoice table records the parsed height \<open>h\<close>, width \<open>wd\<close> and
  quantity \<open>q\<close>, the price \<open>p\<close> of the product found under the parsed \<open>product_id\<close>, and the
  total \<open>h * wd * p * q\<close>, the float product taken from left to right as the code takes
  it. For price 50, height 10, width 5 and quantity 2 the total is 5000, as the evaluation
  after the theorem shows.
\<close>

theorem create_invoice_total_amount:
  assumes "create_invoice w db form = Inr (r, db')"
    and "response r = Redirect (View_invoice iid)"
  shows "\<exists>pid p h wd q qf inv.
           py_int w (form ''product_id'') = Inr pid \<and>
           find (\<lambda>x. prod_id x = pid) (products db) = Some p \<and>
           py_float w (form ''height'') = Inr h \<and>
           py_float w (form ''width'') = Inr wd \<and>
           py_int w (form ''quantity'') = Inr q \<and>
           int_to_float w q = Inr qf \<and>
           invoices db' = invoices db @ [inv] \<and> inv_id inv = iid \<and>
           height_ft inv = h \<and> width_ft inv = wd \<and> quantity inv = q \<and>
           sqft_price_at_booking inv = price_per_sqft p \<and>
           total_amount inv = py_mul w (py_mul w (py_mul w h wd) (price_per_sqft p)) qf"
  using assms create_invoice_try_cases [of w db form] create_invoice_cases [of w db form]
  by (elim disjE exE conjE) auto

theorem create_invoice_total_amount_witness:
  "create_invoice (decimal_world 0 True) shop (order_form ''1'' ''10'' ''5'' ''2'') =
     Inr (\<lparr>response = Redirect (View_invoice 1), flashed = []\<rparr>,
          shop\<lparr>invoices := [asha_invoice 1 10 5 2 5000 0]\<rparr>) \<and>
   price_per_sqft window = Finite 50 \<and>
   (\<exists>inv. invoices (shop\<lparr>invoices := [asha_invoice 1 10 5 2 5000 0]\<rparr>) = invoices shop @ [inv] \<and>
          sqft_price_at_booking inv = Finite 50 \<and> height_ft inv = Finite 10 \<and>
          width_ft inv = Finite 5 \<and> quantity inv = 2 \<and> total_amount inv = Finite 5000)"
  using create_invoice_total_amount [OF order_created [of 0], of 1] order_created [of 0]
  by (auto simp: eval_simps)

text \<open>
  C2 (as amended). The labor rate does not enter the total. The total of a created invoice
  is the product of its height, its width, its price per square foot and its quantity, and
  \<^verbatim>\<open>create_invoice\<close> gives the same reply and writes the same row whatever the LaborCost
  table holds.
\<close>

theorem total_ignores_labor_rate:
  assumes "create_invoice w db form = Inr (r, db')"
    and "response r = Redirect (View_invoice iid)"
  shows "\<exists>inv qf. invoices db' = invoices db @ [inv] \<and>
           int_to_float w (quantity inv) = Inr qf \<and>
           total_amount inv =
             py_mul w (py_mul w (py_mul w (height_ft inv) (width_ft inv))
               (sqft_price_at_booking inv)) qf \<and>
           create_invoice w (db\<lparr>labor_costs := ls\<rparr>) form = Inr (r, db'\<lparr>labor_costs := ls\<rparr>)"
proof -
  have "create_invoice w (db\<lparr>labor_costs := ls\<rparr>) form = Inr (r, db'\<lparr>labor_costs := ls\<rparr>)"
    using assms(1) by (simp add: create_invoice_labor)
  moreover have "\<exists>inv qf. invoices db' = invoices db @ [inv] \<and>
           int_to_float w (quantity inv) = Inr qf \<and>
           total_amount inv =
             py_mul w (py_mul w (py_mul w (height_ft inv) (width_ft inv))
               (sqft_price_at_booking inv)) qf"
    using assms create_invoice_try_cases [of w db form] create_invoice_cases [of w db form]
    by (elim disjE exE conjE) auto
  ultimately show ?thesis by blast
qed

theorem total_ignores_labor_rate_witness:
  "create_invoice (decimal_world 0 True) shop (order_form ''1'' ''10'' ''5'' ''2'') =
     Inr (\<lparr>response = Redirect (View_invoice 1), flashed = []\<rparr>,
          shop\<lparr>invoices := [asha_invoice 1 10 5 2 5000 0]\<rparr>) \<and>
   create_invoice (decimal_world 0 True) (shop\<lparr>labor_costs := []\<rparr>)
       (order_form ''1'' ''10'' ''5'' ''2'') =
     Inr (\<lparr>response = Redirect (View_invoice 1), flashed = []\<rparr>,
          shop\<lparr>invoices := [asha_invoice 1 10 5 2 5000 0], labor_costs := []\<rparr>)"
  using total_ignores_labor_rate [OF order_created [of 0], of 1 "[]"] order_created [of 0]
  by auto

text \<open>
  C2 as stated fails: with a labor rate of 50 in the database, the invoice for a 10 by 5
  window at price 50, quantity 2, has total 5000, not area times price times labor rate
  (125000).
\<close>

theorem total_times_labor_rate_counterexample:
  "create_invoice (decimal_world 0 True) shop (order_form ''1'' ''10'' ''5'' ''2'') =
     Inr (\<lparr>response = Redirect (View_invoice 1), flashed = []\<rparr>,
          shop\<lparr>invoices := [asha_invoice 1 10 5 2 5000 0]\<rparr>) \<and>
   labor_rate shop = Some (Finite 50) \<and> price_per_sqft window = Finite 50 \<and>
   total_amount (asha_invoice 1 10 5 2 5000 0) = Finite 5000 \<and>
   total_amount (asha_invoice 1 10 5 2 5000 0) \<noteq>
     py_mul (decimal_world 0 True)
       (py_mul (decimal_world 0 True) (py_mul (decimal_world 0 True) (Finite 10) (Finite 5))
          (price_per_sqft window))
       (Finite 50)"
  using order_created [of 0]
  by (simp add: labor_rate_def query_first_def shop_fields window_def asha_invoice_def
      to_double_decimal)

subsection \<open>A product that does not exist\<close>

text \<open>
  C3 (as amended). When the \<^verbatim>\<open>product_id\<close> field does not parse to the key of a stored
  product, \<^verbatim>\<open>create_invoice\<close> redirects to the dashboard and leaves the database as it was.
  The message is \<^verbatim>\<open>Product not found\<close> when, in addition, the four numeric fields all parse
  and the parsed key is a 64-bit integer: the fields are parsed before the product is looked
  up.
\<close>

theorem missing_product_no_write:
  assumes "\<And>p. p \<in> set (products db) \<Longrightarrow> py_int w (form ''product_id'') \<noteq> Inr (prod_id p)"
  shows "\<exists>r. create_invoice w db form = Inr (r, db) \<and>
           response r = Redirect Admin_dashboard \<and>
           (\<forall>pid h wd q.
              py_int w (form ''product_id'') = Inr pid \<and> sqlite_integer pid \<and>
              py_float w (form ''height'') = Inr h \<and> py_float w (form ''width'') = Inr wd \<and>
              py_int w (form ''quantity'') = Inr q \<longrightarrow>
              flashed r = [Product_not_found])"
proof -
  consider (exc) e where "create_invoice_try w db form = Inl e"
    | (none) pid where "py_int w (form ''product_id'') = Inr pid"
        "create_invoice_try w db form =
           Inr (\<lparr>response = Redirect Admin_dashboard, flashed = [Product_not_found]\<rparr>, db)"
    | (some) pid p where "py_int w (form ''product_id'') = Inr pid"
        "find (\<lambda>p. prod_id p = pid) (products db) = Some p"
    using create_invoice_try_cases [of w db form] by blast
  then show ?thesis
  proof cases
    case exc
    have "\<not> (\<exists>pid h wd q.
              py_int w (form ''product_id'') = Inr pid \<and> sqlite_integer pid \<and>
              py_float w (form ''height'') = Inr h \<and> py_float w (form ''width'') = Inr wd \<and>
              py_int w (form ''quantity'') = Inr q)"
    proof
      assume "\<exists>pid h wd q.
              py_int w (form ''product_id'') = Inr pid \<and> sqlite_integer pid \<and>
              py_float w (form ''height'') = Inr h \<and> py_float w (form ''width'') = Inr wd \<and>
              py_int w (form ''quantity'') = Inr q"
      then obtain pid h wd q where a: "py_int w (form ''product_id'') = Inr pid" "sqlite_integer pid"
        "py_float w (form ''height'') = Inr h" "py_float w (form ''width'') = Inr wd"
        "py_int w (form ''quantity'') = Inr q" by blast
      show False
      proof (cases "find (\<lambda>p. prod_id p = pid) (products db)")
        case None
        with a exc show False
          by (simp add: create_invoice_try_def query_get_def)
      next
        case (Some p)
        then have "p \<in> set (products db)" "prod_id p = pid"
          by (auto simp: find_Some_iff)
        with assms a(1) show False by blast
      qed
    qed
    with exc show ?thesis by (auto simp: create_invoice_def)
  next
    case none
    then show ?thesis by (simp add: create_invoice_def)
  next
    case some
    then have "p \<in> set (products db)" "prod_id p = pid"
      by (auto simp: find_Some_iff)
    with assms some(1) show ?thesis by blast
  qed
qed

theorem missing_product_no_write_witness:
  "\<exists>r. create_invoice (decimal_world 0 True) shop (order_form ''9999'' ''10'' ''5'' ''2'') =
          Inr (r, shop) \<and>
        response r = Redirect Admin_dashboard \<and> flashed r = [Product_not_found]"
proof -
  have "py_int (decimal_world 0 True) (order_form ''9999'' ''10'' ''5'' ''2'' ''product_id'')
          \<noteq> Inr (prod_id p)" if "p \<in> set (products shop)" for p
    using that by (simp add: eval_simps)
  from missing_product_no_write [of shop "decimal_world 0 True"
      "order_form ''9999'' ''10'' ''5'' ''2''", OF this]
  show ?thesis
    by (simp add: eval_simps)
qed

text \<open>
  C3 as stated fails when another field is malformed: for the absent product 9999 and the
  height \<^verbatim>\<open>abc\<close>, the failure is the \<^verbatim>\<open>ValueError\<close> of \<^verbatim>\<open>float\<close>, raised before the lookup.
\<close>

theorem missing_product_counterexample:
  "query_get prod_id (products shop) 9999 = Inr None \<and>
   create_invoice (decimal_world 0 True) shop (order_form ''9999'' ''abc'' ''5'' ''2'') =
     Inr (\<lparr>response = Redirect Admin_dashboard, flashed = [Exception_text ValueError]\<rparr>, shop) \<and>
   Exception_text ValueError \<noteq> Product_not_found"
  using order_missing_bad_height [of 0]
  by (simp add: query_get_def sqlite_integer_def shop_fields window_def)

subsection \<open>What a request can change\<close>

text \<open>
  \<^verbatim>\<open>create_invoice\<close> always returns, and the database it leaves is the one it found or that
  one with a single row appended to the Invoice table. Every event therefore only appends
  to the Invoice table.
\<close>

lemma create_invoice_try_outcomes:
  obtains (raised) e where "create_invoice_try w db form = Inl e"
  | (not_found) "create_invoice_try w db form =
        Inr (\<lparr>response = Redirect Admin_dashboard, flashed = [Product_not_found]\<rparr>, db)"
  | (created) row where "create_invoice_try w db form =
        Inr (\<lparr>response = Redirect (View_invoice (inv_id row)), flashed = []\<rparr>,
             db\<lparr>invoices := invoices db @ [row]\<rparr>)"
proof -
  from create_invoice_try_cases [of w db form]
  consider (a) "\<exists>e. create_invoice_try w db form = Inl e"
    | (b) "create_invoice_try w db form =
        Inr (\<lparr>response = Redirect Admin_dashboard, flashed = [Product_not_found]\<rparr>, db)"
    | (c) "\<exists>row. create_invoice_try w db form =
        Inr (\<lparr>response = Redirect (View_invoice (inv_id row)), flashed = []\<rparr>,
             db\<lparr>invoices := invoices db @ [row]\<rparr>)"
  proof (elim disjE exE conjE)
    fix e assume "create_invoice_try w db form = Inl e"
    then have "\<exists>e. create_invoice_try w db form = Inl e" by blast
    then show ?thesis by (rule a)
  next
    assume "create_invoice_try w db form =
        Inr (\<lparr>response = Redirect Admin_dashboard, flashed = [Product_not_found]\<rparr>, db)"
    then show ?thesis by (rule b)
  next
    fix pid p h wd q qf cn cp ca
    assume "create_invoice_try w db form =
        Inr (\<lparr>response = Redirect (View_invoice (next_id (map inv_id (invoices db)))), flashed = []\<rparr>,
             db\<lparr>invoices := invoices db @
               [\<lparr>inv_id = next_id (map inv_id (invoices db)), customer_name = cn,
                 customer_phone = cp, customer_address = ca, product_id = pid,
                 product_name = Some (prod_name p), height_ft = h, width_ft = wd, quantity = q,
                 sqft_price_at_booking = price_per_sqft p,
                 total_amount = py_mul w (py_mul w (py_mul w h wd) (price_per_sqft p)) qf,
                 created_at = utcnow w\<rparr>]\<rparr>)"
    then have "create_invoice_try w db form =
        Inr (\<lparr>response = Redirect (View_invoice (inv_id
               \<lparr>inv_id = next_id (map inv_id (invoices db)), customer_name = cn,
                 customer_phone = cp, customer_address = ca, product_id = pid,
                 product_name = Some (prod_name p), height_ft = h, width_ft = wd, quantity = q,
                 sqft_price_at_booking = price_per_sqft p,
                 total_amount = py_mul w (py_mul w (py_mul w h wd) (price_per_sqft p)) qf,
                 created_at = utcnow w\<rparr>)), flashed = []\<rparr>,
             db\<lparr>invoices := invoices db @
               [\<lparr>inv_id = next_id (map inv_id (invoices db)), customer_name = cn,
                 customer_phone = cp, customer_address = ca, product_id = pid,
                 product_name = Some (prod_name p), height_ft = h, width_ft = wd, quantity = q,
                 sqft_price_at_booking = price_per_sqft p,
                 total_amount = py_mul w (py_mul w (py_mul w h wd) (price_per_sqft p)) qf,
                 created_at = utcnow w\<rparr>]\<rparr>)"
      by simp
    then have "\<exists>row. create_invoice_try w db form =
        Inr (\<lparr>response = Redirect (View_invoice (inv_id row)), flashed = []\<rparr>,
             db\<lparr>invoices := invoices db @ [row]\<rparr>)"
      by (rule exI)
    then show ?thesis by (rule c)
  qed
  then show ?thesis
  proof cases
    case a
    then show ?thesis using raised by blast
  next
    case b
    then show ?thesis by (rule not_found)
  next
    case c
    then show ?thesis using created by blast
  qed
qed

lemma create_invoice_frame:
  "\<exists>r db'. create_invoice w db form = Inr (r, db') \<and>
     (db' = db \<or> (\<exists>inv. db' = db\<lparr>invoices := invoices db @ [inv]\<rparr>))"
  using create_invoice_try_cases [of w db form] create_invoice_cases [of w db form]
  by (elim disjE exE conjE) auto

lemma committed_create_invoice:
  "\<exists>new. invoices (committed db (create_invoice w db form)) = invoices db @ new"
  using create_invoice_frame [of w db form] by (auto simp: committed_def)

lemma apply_event_invoices:
  "\<exists>new. invoices (apply_event w auth ev db) = invoices db @ new"
proof (cases ev)
  case Init_database
  then show ?thesis
    by (auto simp: init_database_def Let_def split: sum.splits if_splits)
next
  case (Add_category form)
  then show ?thesis
    by (auto simp: login_required_def committed_def add_category_def
             split: option.splits if_splits)
next
  case (Add_product form)
  then show ?thesis
    by (auto simp: login_required_def committed_def add_product_def Let_def
             split: sum.splits option.splits if_splits)
next
  case (Update_labor form)
  then show ?thesis
    by (auto simp: login_required_def committed_def update_labor_def
             split: sum.splits list.splits if_splits)
next
  case (Create_invoice form)
  then show ?thesis
    using committed_create_invoice [of db w form]
    by (auto simp: login_required_def committed_def)
next
  case (Set_product_price pid price)
  then show ?thesis by (simp add: set_product_price_def)
qed

lemma run_invoices: "\<exists>new. invoices (run evs db) = invoices db @ new"
proof (induction evs arbitrary: db)
  case Nil
  then show ?case by simp
next
  case (Cons x evs)
  obtain w auth ev where x: "x = (w, auth, ev)" by (cases x)
  obtain n1 where n1: "invoices (apply_event w auth ev db) = invoices db @ n1"
    using apply_event_invoices by blast
  obtain n2 where "invoices (run evs (apply_event w auth ev db)) =
      invoices (apply_event w auth ev db) @ n2"
    using Cons.IH by blast
  with n1 x show ?case by simp
qed

lemma find_append_Some: "find P xs = Some x \<Longrightarrow> find P (xs @ ys) = Some x"
  by (induction xs) (auto split: if_splits)

text \<open>
  C4. An invoice that is stored stays the row it is through any history of events: a
  lookup by its id returns the same row, hence the same \<open>sqft_price_at_booking\<close>,
  \<open>product_name\<close> and \<open>total_amount\<close>, and the old table is a prefix of the new one. The
  histories include changes of the product's price and further invoices for that product.
\<close>

theorem invoice_snapshot_immutable:
  assumes "query_get inv_id (invoices db) iid = Inr (Some bill)"
  shows "query_get inv_id (invoices (run evs db)) iid = Inr (Some bill) \<and>
         (\<exists>new. invoices (run evs db) = invoices db @ new)"
proof -
  obtain new where new: "invoices (run evs db) = invoices db @ new"
    using run_invoices by blast
  from assms have "sqlite_integer iid" "find (\<lambda>r. inv_id r = iid) (invoices db) = Some bill"
    by (auto simp: query_get_def split: if_splits)
  then show ?thesis using new
    by (simp add: query_get_def find_append_Some)
qed

theorem invoice_snapshot_immutable_witness:
  "query_get inv_id (invoices (shop\<lparr>invoices := [asha_invoice 1 10 5 2 5000 0]\<rparr>)) 1 =
     Inr (Some (asha_invoice 1 10 5 2 5000 0)) \<and>
   map price_per_sqft
     (products (run [(decimal_world 5 True, True, Set_product_price 1 (Finite 75)),
                     (decimal_world 9 True, True, Create_invoice (order_form ''1'' ''10'' ''5'' ''2''))]
                    (shop\<lparr>invoices := [asha_invoice 1 10 5 2 5000 0]\<rparr>))) = [Finite 75] \<and>
   query_get inv_id
     (invoices (run [(decimal_world 5 True, True, Set_product_price 1 (Finite 75)),
                     (decimal_world 9 True, True, Create_invoice (order_form ''1'' ''10'' ''5'' ''2''))]
                    (shop\<lparr>invoices := [asha_invoice 1 10 5 2 5000 0]\<rparr>))) 1 =
     Inr (Some (asha_invoice 1 10 5 2 5000 0))"
proof -
  have h: "query_get inv_id (invoices (shop\<lparr>invoices := [asha_invoice 1 10 5 2 5000 0]\<rparr>)) 1 =
     Inr (Some (asha_invoice 1 10 5 2 5000 0))"
    by (simp add: query_get_def sqlite_integer_def asha_invoice_def)
  have p: "map price_per_sqft
     (products (run [(decimal_world 5 True, True, Set_product_price 1 (Finite 75)),
                     (decimal_world 9 True, True, Create_invoice (order_form ''1'' ''10'' ''5'' ''2''))]
                    (shop\<lparr>invoices := [asha_invoice 1 10 5 2 5000 0]\<rparr>))) = [Finite 75]"
    by (simp add: eval_simps set_product_price_def login_required_def committed_def)
  from invoice_snapshot_immutable [OF h] h p show ?thesis by blast
qed

subsection \<open>Input that is not validated\<close>

text \<open>
  C5 (as amended). \<^verbatim>\<open>create_invoice\<close> rejects a height, width or quantity field only when
  it is missing or does not parse (\<^verbatim>\<open>float\<close> or \<^verbatim>\<open>int\<close> raises): the exception is caught, its
  text is flashed, the reply redirects to the dashboard and nothing is written. There is no
  check of sign or of zero.
\<close>

theorem unparseable_field_rejected:
  assumes "isl (py_float w (form ''height'')) \<or> isl (py_float w (form ''width'')) \<or>
           isl (py_int w (form ''quantity''))"
  shows "\<exists>e. create_invoice w db form =
               Inr (\<lparr>response = Redirect Admin_dashboard, flashed = [Exception_text e]\<rparr>, db) \<and>
             (e = TypeError \<or> e = ValueError)"
proof -
  have exc: "isl (py_int w v) \<Longrightarrow> py_int w v = Inl TypeError \<or> py_int w v = Inl ValueError" for v
    by (auto simp: py_int_def split: option.splits)
  have exc': "isl (py_float w v) \<Longrightarrow> py_float w v = Inl TypeError \<or> py_float w v = Inl ValueError" for v
    by (auto simp: py_float_def split: option.splits)
  have "create_invoice_try w db form = Inl TypeError \<or> create_invoice_try w db form = Inl ValueError"
    using assms exc [of "form ''product_id''"] exc [of "form ''quantity''"]
      exc' [of "form ''height''"] exc' [of "form ''width''"]
    unfolding create_invoice_try_def Let_def
    by (cases "py_int w (form ''product_id'')"; cases "py_float w (form ''height'')";
        cases "py_float w (form ''width'')"; cases "py_int w (form ''quantity'')") auto
  then show ?thesis by (auto simp: create_invoice_def)
qed

theorem unparseable_field_rejected_witness:
  "isl (py_float (decimal_world 0 True) (order_form ''1'' ''abc'' ''5'' ''2'' ''height'')) \<and>
   create_invoice (decimal_world 0 True) shop (order_form ''1'' ''abc'' ''5'' ''2'') =
     Inr (\<lparr>response = Redirect Admin_dashboard, flashed = [Exception_text ValueError]\<rparr>, shop)"
proof -
  have h: "isl (py_float (decimal_world 0 True) (order_form ''1'' ''abc'' ''5'' ''2'' ''height''))"
    by (simp add: eval_simps)
  then have "isl (py_float (decimal_world 0 True) (order_form ''1'' ''abc'' ''5'' ''2'' ''height'')) \<or>
      isl (py_float (decimal_world 0 True) (order_form ''1'' ''abc'' ''5'' ''2'' ''width'')) \<or>
      isl (py_int (decimal_world 0 True) (order_form ''1'' ''abc'' ''5'' ''2'' ''quantity''))"
    by blast
  from unparseable_field_rejected [OF this, of shop] h show ?thesis
    by (simp add: eval_simps)
qed

text \<open>
  C5 as stated fails: the height \<^verbatim>\<open>-1\<close> is accepted and an invoice with the total -500 is
  stored.
\<close>

theorem nonpositive_height_counterexample:
  "decimal_float ''-1'' = Some (Finite (- 1)) \<and>
   create_invoice (decimal_world 0 True) shop (order_form ''1'' ''-1'' ''5'' ''2'') =
     Inr (\<lparr>response = Redirect (View_invoice 1), flashed = []\<rparr>,
          shop\<lparr>invoices := [asha_invoice 1 (- 1) 5 2 (- 500) 0]\<rparr>)"
  using order_negative [of 0] by (simp add: decimal_float_values)

subsection \<open>The frame of \<^verbatim>\<open>create_invoice\<close>\<close>

text \<open>
  C6. \<^verbatim>\<open>create_invoice\<close> returns a reply for every input, and the database after it is
  either the database before it or that database with exactly one row appended to the
  Invoice table: no Product row and no other stored row is touched.
\<close>

theorem create_invoice_writes_one_row:
  "\<exists>r db'. create_invoice w db form = Inr (r, db') \<and>
     (db' = db \<or> (\<exists>row. db' = db\<lparr>invoices := invoices db @ [row]\<rparr>))"
  using create_invoice_frame [of w db form] by blast

subsection \<open>A zero height or quantity\<close>

text \<open>
  A product of floats is finite only if both factors are; zero times a finite float is
  zero; every 64-bit integer converts to a finite float, and 0 to zero.
\<close>

lemma py_mul_finite:
  "finite_float (py_mul w x y) \<Longrightarrow> finite_float x \<and> finite_float y"
  by (cases x; cases y) (auto simp: finite_float_def split: if_splits)

lemma py_mul_zero_left: "finite_float y \<Longrightarrow> py_mul w (Finite 0) y = Finite 0"
  by (cases y) (auto simp: finite_float_def to_double_def)

lemma py_mul_zero_right: "finite_float x \<Longrightarrow> py_mul w x (Finite 0) = Finite 0"
  by (cases x) (auto simp: finite_float_def to_double_def)

lemma to_double_finite: "\<not> overflow_threshold \<le> \<bar>x\<bar> \<Longrightarrow> finite_float (to_double w x)"
  by (simp add: to_double_def finite_float_def)

lemma int_to_float_finite:
  assumes "sqlite_integer n"
  shows "\<exists>y. int_to_float w n = Inr y \<and> finite_float y \<and> (n = 0 \<longrightarrow> y = Finite 0)"
proof -
  from assms have "- (2 ^ 63) \<le> n" "n < 2 ^ 63"
    by (simp_all add: sqlite_integer_def)
  then have "\<bar>real_of_int n\<bar> \<le> 2 ^ 63"
    by (simp add: abs_le_iff)
  then have small: "\<not> overflow_threshold \<le> \<bar>real_of_int n\<bar>"
    by (rule below_overflow_threshold)
  then have "int_to_float w n = Inr (to_double w (of_int n))"
    by (simp add: int_to_float_def)
  moreover have "finite_float (to_double w (of_int n))"
    using small by (rule to_double_finite)
  moreover have "n = 0 \<longrightarrow> to_double w (of_int n) = Finite 0"
    by (simp add: to_double_def)
  ultimately show ?thesis by blast
qed

text \<open>
  C7 (as amended). For an existing product, a request is accepted (the reply redirects to
  the new invoice) and the stored row has total 0 when its height is 0 and its width and the
  product's price are finite, or when its quantity is 0 and the float product
  height * width * price is finite, provided the rest of the request is well-formed: the
  four numeric fields parse, \<open>product_id\<close> and quantity fit SQLite's 64 bits, the three
  customer fields are present, and the commit goes through.
\<close>

theorem zero_dimension_accepted:
  assumes "py_int w (form ''product_id'') = Inr pid" and "sqlite_integer pid"
    and "find (\<lambda>x. prod_id x = pid) (products db) = Some p"
    and "py_float w (form ''height'') = Inr h"
    and "py_float w (form ''width'') = Inr wd"
    and "py_int w (form ''quantity'') = Inr q" and "sqlite_integer q"
    and "form ''customer_name'' = Some cn" and "form ''customer_phone'' = Some cp"
    and "form ''customer_address'' = Some ca"
    and "commit_ok w"
    and "(h = Finite 0 \<and> finite_float wd \<and> finite_float (price_per_sqft p)) \<or>
         (q = 0 \<and> finite_float (py_mul w (py_mul w h wd) (price_per_sqft p)))"
  shows "\<exists>iid row. create_invoice w db form =
             Inr (\<lparr>response = Redirect (View_invoice iid), flashed = []\<rparr>,
                  db\<lparr>invoices := invoices db @ [row]\<rparr>) \<and>
           inv_id row = iid \<and> height_ft row = h \<and> quantity row = q \<and>
           total_amount row = Finite 0"
proof -
  obtain qf where qf: "int_to_float w q = Inr qf" "finite_float qf" "q = 0 \<longrightarrow> qf = Finite 0"
    using int_to_float_finite [OF assms(7)] by blast
  have fin: "finite_float h \<and> finite_float wd \<and> finite_float (price_per_sqft p) \<and>
      py_mul w (py_mul w (py_mul w h wd) (price_per_sqft p)) qf = Finite 0"
    using assms(12)
  proof
    assume a: "h = Finite 0 \<and> finite_float wd \<and> finite_float (price_per_sqft p)"
    then have "py_mul w h wd = Finite 0" by (simp add: py_mul_zero_left)
    then have "py_mul w (py_mul w h wd) (price_per_sqft p) = Finite 0"
      using a by (simp add: py_mul_zero_left)
    then have "py_mul w (py_mul w (py_mul w h wd) (price_per_sqft p)) qf = Finite 0"
      using qf(2) by (simp add: py_mul_zero_left)
    with a show ?thesis by (simp add: finite_float_def)
  next
    assume b: "q = 0 \<and> finite_float (py_mul w (py_mul w h wd) (price_per_sqft p))"
    then have "finite_float (py_mul w h wd)" "finite_float (price_per_sqft p)"
      using py_mul_finite by blast+
    moreover from this have "finite_float h" "finite_float wd"
      using py_mul_finite by blast+
    moreover have "py_mul w (py_mul w (py_mul w h wd) (price_per_sqft p)) qf = Finite 0"
      using b qf(3) by (simp add: py_mul_zero_right)
    ultimately show ?thesis by simp
  qed
  then have nn: "h \<noteq> NaN" "wd \<noteq> NaN" "price_per_sqft p \<noteq> NaN"
    by (auto simp: finite_float_def)
  let ?row = "\<lparr>inv_id = next_id (map inv_id (invoices db)), customer_name = cn,
      customer_phone = cp, customer_address = ca, product_id = pid,
      product_name = Some (prod_name p), height_ft = h, width_ft = wd, quantity = q,
      sqft_price_at_booking = price_per_sqft p, total_amount = Finite 0,
      created_at = utcnow w\<rparr>"
  have "create_invoice w db form =
      Inr (\<lparr>response = Redirect (View_invoice (inv_id ?row)), flashed = []\<rparr>,
           db\<lparr>invoices := invoices db @ [?row]\<rparr>)"
    using assms(1-11) qf(1) fin nn
    by (simp add: create_invoice_def create_invoice_try_def insert_invoice_def query_get_def
        sqlite_real_def Let_def)
  moreover have "height_ft ?row = h \<and> quantity ?row = q \<and> total_amount ?row = Finite 0"
    by simp
  ultimately show ?thesis by blast
qed

theorem zero_dimension_accepted_witness:
  "create_invoice (decimal_world 0 True) shop (order_form ''1'' ''0'' ''5'' ''2'') =
     Inr (\<lparr>response = Redirect (View_invoice 1), flashed = []\<rparr>,
          shop\<lparr>invoices := [asha_invoice 1 0 5 2 0 0]\<rparr>) \<and>
   (\<exists>iid row. create_invoice (decimal_world 0 True) shop (order_form ''1'' ''10'' ''5'' ''0'') =
             Inr (\<lparr>response = Redirect (View_invoice iid), flashed = []\<rparr>,
                  shop\<lparr>invoices := invoices shop @ [row]\<rparr>) \<and>
           inv_id row = iid \<and> height_ft row = Finite 10 \<and> quantity row = 0 \<and>
           total_amount row = Finite 0)"
proof -
  have a: "create_invoice (decimal_world 0 True) shop (order_form ''1'' ''0'' ''5'' ''2'') =
     Inr (\<lparr>response = Redirect (View_invoice 1), flashed = []\<rparr>,
          shop\<lparr>invoices := [asha_invoice 1 0 5 2 0 0]\<rparr>)"
    by (simp add: eval_simps Let_def)
  have b: "\<exists>iid row. create_invoice (decimal_world 0 True) shop (order_form ''1'' ''10'' ''5'' ''0'') =
             Inr (\<lparr>response = Redirect (View_invoice iid), flashed = []\<rparr>,
                  shop\<lparr>invoices := invoices shop @ [row]\<rparr>) \<and>
           inv_id row = iid \<and> height_ft row = Finite 10 \<and> quantity row = 0 \<and>
           total_amount row = Finite 0"
    by (rule zero_dimension_accepted [where pid = 1 and p = window and wd = "Finite 5"
          and cn = "''Asha''" and cp = "''555''" and ca = "''12 Mill Road''"])
       (simp_all add: eval_simps finite_float_def)
  from a b show ?thesis by blast
qed

text \<open>
  C7 as stated fails. For the existing product 1, the height 0 with the width \<^verbatim>\<open>inf\<close>, and
  the quantity 0 with the height \<^verbatim>\<open>inf\<close>, give the total NaN, which SQLite refuses in the
  NOT NULL column: the \<^verbatim>\<open>IntegrityError\<close> is caught and no invoice is stored. The height 0
  with the width \<^verbatim>\<open>abc\<close> ends in the \<^verbatim>\<open>ValueError\<close> of \<^verbatim>\<open>float\<close>.
\<close>

theorem zero_dimension_counterexample:
  "query_get prod_id (products shop) 1 = Inr (Some window) \<and>
   decimal_float ''0'' = Some (Finite 0) \<and> decimal_float ''inf'' = Some (Infinity True) \<and>
   decimal_int ''0'' = Some 0 \<and>
   create_invoice (decimal_world 0 True) shop (order_form ''1'' ''0'' ''inf'' ''2'') =
     Inr (\<lparr>response = Redirect Admin_dashboard, flashed = [Exception_text IntegrityError]\<rparr>,
          shop) \<and>
   create_invoice (decimal_world 0 True) shop (order_form ''1'' ''inf'' ''5'' ''0'') =
     Inr (\<lparr>response = Redirect Admin_dashboard, flashed = [Exception_text IntegrityError]\<rparr>,
          shop) \<and>
   create_invoice (decimal_world 0 True) shop (order_form ''1'' ''0'' ''abc'' ''2'') =
     Inr (\<lparr>response = Redirect Admin_dashboard, flashed = [Exception_text ValueError]\<rparr>, shop)"
  using order_zero_by_infinity [of 0] order_infinity_by_zero [of 0] order_zero_bad_width [of 0]
  by (simp add: query_get_def sqlite_integer_def shop_fields window_def decimal_float_values
      decimal_int_values)

subsection \<open>The dashboard's listing\<close>

lemma sorted_desc_order_by:
  "sorted_wrt (\<lambda>a b. col b \<le> col a) (order_by_desc col rows)"
proof -
  have "sorted (map (\<lambda>r. - col r) (sort_key (\<lambda>r. - col r) rows))"
    by (rule sorted_sort_key)
  then show ?thesis
    by (simp add: order_by_desc_def sorted_map)
qed

text \<open>
  C8. The dashboard is rendered with a listing that holds exactly the stored invoices (as
  a multiset) in descending order of \<open>created_at\<close>.
\<close>

theorem dashboard_lists_invoices_newest_first:
  "\<exists>listing. response (admin_dashboard db) =
       Render_dashboard (categories db) (products db) (query_first (labor_costs db)) listing \<and>
     mset listing = mset (invoices db) \<and>
     sorted_wrt (\<lambda>a b. created_at b \<le> created_at a) listing"
  by (simp add: admin_dashboard_def sorted_desc_order_by) (simp add: order_by_desc_def)

subsection \<open>No exception leaves \<^verbatim>\<open>create_invoice\<close>\<close>

text \<open>
  C9. For every world, database and form, \<^verbatim>\<open>create_invoice\<close> returns a reply (never
  \<open>Inl\<close>). The reply is a redirect: to the new invoice, with that one row appended, or to
  the dashboard with the database unchanged. Whenever the \<^verbatim>\<open>try\<close> block raises (a field that
  does not parse, a NOT NULL or integer-range violation, a failed commit), the reply is the
  redirect to the dashboard with the exception's text flashed, and nothing is stored.
\<close>

theorem create_invoice_never_raises:
  "\<exists>r db'. create_invoice w db form = Inr (r, db') \<and>
     ((\<exists>row. response r = Redirect (View_invoice (inv_id row)) \<and>
             db' = db\<lparr>invoices := invoices db @ [row]\<rparr>) \<or>
      (response r = Redirect Admin_dashboard \<and> db' = db)) \<and>
     (\<forall>e. create_invoice_try w db form = Inl e \<longrightarrow>
          r = \<lparr>response = Redirect Admin_dashboard, flashed = [Exception_text e]\<rparr> \<and> db' = db)"
proof (cases rule: create_invoice_try_outcomes [of w db form])
  case (raised e)
  then have "create_invoice w db form =
      Inr (\<lparr>response = Redirect Admin_dashboard, flashed = [Exception_text e]\<rparr>, db)"
    by (simp add: create_invoice_def)
  with raised show ?thesis by simp
next
  case not_found
  then have "create_invoice w db form =
      Inr (\<lparr>response = Redirect Admin_dashboard, flashed = [Product_not_found]\<rparr>, db)"
    by (simp add: create_invoice_def)
  with not_found show ?thesis by simp
next
  case (created row)
  then have "create_invoice w db form =
      Inr (\<lparr>response = Redirect (View_invoice (inv_id row)), flashed = []\<rparr>,
           db\<lparr>invoices := invoices db @ [row]\<rparr>)"
    by (simp add: create_invoice_def)
  moreover have "\<exists>row'. response \<lparr>response = Redirect (View_invoice (inv_id row)), flashed = []\<rparr> =
         Redirect (View_invoice (inv_id row')) \<and>
       db\<lparr>invoices := invoices db @ [row]\<rparr> = db\<lparr>invoices := invoices db @ [row']\<rparr>"
    by (rule exI [of _ row]) simp
  ultimately show ?thesis using created by simp
qed

theorem create_invoice_never_raises_witness:
  "create_invoice_try (decimal_world 0 True) shop (order_form ''1'' ''abc'' ''5'' ''2'') =
     Inl ValueError \<and>
   create_invoice (decimal_world 0 True) shop (order_form ''1'' ''abc'' ''5'' ''2'') =
     Inr (\<lparr>response = Redirect Admin_dashboard, flashed = [Exception_text ValueError]\<rparr>, shop) \<and>
   create_invoice_try (decimal_world 0 False) shop (order_form ''1'' ''10'' ''5'' ''2'') =
     Inl OperationalError \<and>
   create_invoice (decimal_world 0 False) shop (order_form ''1'' ''10'' ''5'' ''2'') =
     Inr (\<lparr>response = Redirect Admin_dashboard, flashed = [Exception_text OperationalError]\<rparr>,
          shop)"
proof -
  have a: "create_invoice_try (decimal_world 0 True) shop (order_form ''1'' ''abc'' ''5'' ''2'') =
     Inl ValueError"
    by (simp add: eval_simps)
  have b: "create_invoice_try (decimal_world 0 False) shop (order_form ''1'' ''10'' ''5'' ''2'') =
     Inl OperationalError"
    by (simp add: eval_simps)
  from create_invoice_never_raises [of "decimal_world 0 True" shop "order_form ''1'' ''abc'' ''5'' ''2''"]
  have a': "create_invoice (decimal_world 0 True) shop (order_form ''1'' ''abc'' ''5'' ''2'') =
     Inr (\<lparr>response = Redirect Admin_dashboard, flashed = [Exception_text ValueError]\<rparr>, shop)"
    using a by (elim exE conjE) simp
  from create_invoice_never_raises [of "decimal_world 0 False" shop "order_form ''1'' ''10'' ''5'' ''2''"]
  have b': "create_invoice (decimal_world 0 False) shop (order_form ''1'' ''10'' ''5'' ''2'') =
     Inr (\<lparr>response = Redirect Admin_dashboard, flashed = [Exception_text OperationalError]\<rparr>, shop)"
    using b by (elim exE conjE) simp
  from a a' b b' show ?thesis by blast
qed

subsection \<open>The LaborCost table\<close>

lemma apply_event_labor_costs:
  assumes "length (labor_costs db) \<le> 1"
  shows "length (labor_costs (apply_event w auth ev db)) \<le> 1"
proof (cases ev)
  case Init_database
  then show ?thesis using assms
    by (auto simp: init_database_def query_first_def Let_def split: list.splits if_splits)
next
  case (Add_category form)
  then show ?thesis using assms
    by (auto simp: login_required_def committed_def add_category_def
             split: option.splits if_splits)
next
  case (Add_product form)
  then show ?thesis using assms
    by (auto simp: login_required_def committed_def add_product_def Let_def
             split: sum.splits option.splits if_splits)
next
  case (Update_labor form)
  then show ?thesis using assms
    by (auto simp: login_required_def committed_def update_labor_def
             split: sum.splits list.splits if_splits)
next
  case (Create_invoice form)
  then show ?thesis
    using assms create_invoice_frame [of w db form]
    by (auto simp: login_required_def committed_def)
next
  case (Set_product_price pid price)
  then show ?thesis using assms by (simp add: set_product_price_def)
qed

text \<open>
  C10. A LaborCost table with at most one row keeps at most one row through every history
  of events: \<^verbatim>\<open>init_database\<close> adds a row only to an empty table, \<^verbatim>\<open>update_labor\<close> adds one
  only to an empty table and otherwise overwrites the rate of the first row, and no other
  event writes the table. In particular this holds of every history from the empty
  database.
\<close>

theorem at_most_one_labor_cost:
  assumes "length (labor_costs db) \<le> 1"
  shows "length (labor_costs (run evs db)) \<le> 1"
  using assms
proof (induction evs arbitrary: db)
  case Nil
  then show ?case by simp
next
  case (Cons x evs)
  obtain w auth ev where x: "x = (w, auth, ev)" by (cases x)
  from Cons.prems have "length (labor_costs (apply_event w auth ev db)) \<le> 1"
    by (rule apply_event_labor_costs)
  then have "length (labor_costs (run evs (apply_event w auth ev db))) \<le> 1"
    by (rule Cons.IH)
  with x show ?case by simp
qed

theorem at_most_one_labor_cost_witness:
  "length (labor_costs empty_database) \<le> 1 \<and>
   labor_costs (run [(decimal_world 0 True, False, Init_database),
                     (decimal_world 1 True, True, Update_labor (rate_form ''60'')),
                     (decimal_world 2 True, False, Init_database)] empty_database) =
     [\<lparr>labor_id = 1, rate_per_sqft = Some (Finite 60)\<rparr>] \<and>
   length (labor_costs (run [(decimal_world 0 True, False, Init_database),
                     (decimal_world 1 True, True, Update_labor (rate_form ''60'')),
                     (decimal_world 2 True, False, Init_database)] empty_database)) \<le> 1"
proof -
  have h: "length (labor_costs empty_database) \<le> 1"
    by (simp add: empty_database_def)
  have "labor_costs (run [(decimal_world 0 True, False, Init_database),
                     (decimal_world 1 True, True, Update_labor (rate_form ''60'')),
                     (decimal_world 2 True, False, Init_database)] empty_database) =
     [\<lparr>labor_id = 1, rate_per_sqft = Some (Finite 60)\<rparr>]"
    by (simp add: empty_database_def init_database_def query_first_def next_id_def
        decimal_world_fields decimal_float_values login_required_def committed_def
        update_labor_def py_float_def sqlite_real_def rate_form_def Let_def)
  with h at_most_one_labor_cost [OF h] show ?thesis by blast
qed

end
